theory Spec2Isabelle
  imports Complex_Main
begin

section \<open>Dispatch utilities: choosing a generation strategy\<close>

text \<open>
  A model of \<^verbatim>\<open>ax/modelbridge/dispatch_utils.py\<close>: the heuristic
  \<^verbatim>\<open>_suggest_gp_model\<close>, the step constructors \<^verbatim>\<open>_make_sobol_step\<close> and
  \<^verbatim>\<open>_make_botorch_step\<close>, and \<^verbatim>\<open>choose_generation_strategy\<close>.

  Conventions. Python integers are \<open>int\<close>. \<^verbatim>\<open>Optional[T]\<close> is \<open>T option\<close>. A
  raised exception is the \<open>Inl\<close> side of a sum. The one floating-point computation
  of the module, \<^verbatim>\<open>ceil(num_trials / 2)\<close>, is modelled with the rounding and the
  overflow of binary64. The other floats (bounds of range parameters, winsorization
  limits) are only stored or subtracted for integer-typed parameters and are read as
  real numbers. Calls to the logger do not change any result and are left out. Names
  that Isabelle does not accept lose their leading underscore; a function parameter
  whose name is also a record field carries a prime.
\<close>

subsection \<open>Data\<close>

datatype Models = SOBOL | GPEI | MOO | FULLYBAYESIAN | FULLYBAYESIANMOO | BO_MIXED

text \<open>
  Modelled from the spec: the parameter classes of \<^verbatim>\<open>ax.core.parameter\<close> are
  not part of the sources at hand. The specification gives a parameter as a tagged
  variant, \<open>Range{lower, upper, is_integer}\<close> or \<open>Choice{values}\<close>, and says
  that any other kind of parameter is not counted. The code reads
  \<^verbatim>\<open>len(parameter.values)\<close>, \<^verbatim>\<open>parameter.parameter_type\<close>, \<^verbatim>\<open>parameter.upper\<close>
  and \<^verbatim>\<open>parameter.lower\<close>.
\<close>

datatype ParameterType = INT_type | FLOAT_type

datatype TParamValue = StrValue string | BoolValue bool | FloatValue real | IntValue int

datatype Parameter =
    ChoiceParameter (choice_values: "TParamValue list")
  | RangeParameter (lower: real) (upper: real) (parameter_type: ParameterType)
  | OtherParameter

text \<open>
  Modelled from the spec: \<^verbatim>\<open>SearchSpace.parameters\<close> is a dictionary from
  parameter name to parameter. It is kept as the list of its items in iteration order.
\<close>

record SearchSpace =
  parameters :: "(string \<times> Parameter) list"

text \<open>
  Modelled from the spec: the optimization config exposes one boolean query,
  whether the problem is multi-objective.
\<close>

record OptimizationConfig =
  is_moo_problem :: bool

text \<open>
  Modelled from the spec: the experiment is an opaque context that the strategy only
  refers to.
\<close>

datatype Experiment = Experiment (experiment_name: string)

text \<open>
  Modelled from the spec: transforms are identifiers handed on to the transform
  pipeline. \<^verbatim>\<open>Cont_X_trans\<close> and \<^verbatim>\<open>Y_trans\<close> are lists defined in
  \<^verbatim>\<open>ax.modelbridge.registry\<close>, which is not part of the sources at hand; they are
  taken as parameters.
\<close>

datatype Transform = Winsorize | Transform string

record registry =
  Cont_X_trans :: "Transform list"
  Y_trans :: "Transform list"

text \<open>The values that occur in the \<^verbatim>\<open>model_kwargs\<close> dictionaries built here.\<close>

datatype kwarg =
    BoolKwarg bool
  | SeedKwarg "int option"
  | TransformsKwarg "Transform list"
  | TransformConfigsKwarg "(string \<times> (string \<times> real option) list) list"

text \<open>
  Modelled from the spec: a generation step is a plain value with the fields below,
  and a generation strategy is the list of its steps with an optional experiment.
  Their constructors (\<^verbatim>\<open>ax.modelbridge.generation_strategy\<close>) are not part of the
  sources at hand and are taken to store what they are given.
\<close>

record GenerationStep =
  model :: Models
  num_trials :: int
  min_trials_observed :: int
  enforce_num_trials :: bool
  max_parallelism :: "int option"
  model_kwargs :: "(string \<times> kwarg) list option"
  should_deduplicate :: bool

record GenerationStrategy =
  steps :: "GenerationStep list"
  strategy_experiment :: "Experiment option"

datatype error = ValueError string | AssertionError | OverflowError

subsection \<open>Constants and Python helpers\<close>

definition DEFAULT_BAYESIAN_PARALLELISM :: int where
  "DEFAULT_BAYESIAN_PARALLELISM = 3"

definition MAX_DISCRETE_COMBINATIONS :: int where
  "MAX_DISCRETE_COMBINATIONS = 65"

definition winsorization_message :: string where
  "winsorization_message =
     ''To apply winsorization, specify `winsorize=True` and provide the winsorization limits.''"

definition parallelism_message :: string where
  "parallelism_message =
     ''If `max_parallelism_override` specified, cannot also apply `max_parallelism_cap`.''"

text \<open>Python's \<^verbatim>\<open>int(x)\<close> on a float: truncation towards zero.\<close>

definition py_int :: "real \<Rightarrow> int" where
  "py_int x = (if 0 \<le> x then \<lfloor>x\<rfloor> else \<lceil>x\<rceil>)"

text \<open>Truth value of an \<^verbatim>\<open>Optional[int]\<close>: \<^verbatim>\<open>None\<close> and \<open>0\<close> are false.\<close>

definition truthy :: "int option \<Rightarrow> bool" where
  "truthy x = (case x of None \<Rightarrow> False | Some v \<Rightarrow> v \<noteq> 0)"

text \<open>Python's \<^verbatim>\<open>int.bit_length\<close> on a natural number.\<close>

fun bit_length :: "nat \<Rightarrow> nat" where
  "bit_length n = (if n = 0 then 0 else Suc (bit_length (n div 2)))"

declare bit_length.simps [simp del]

text \<open>
  The quotient \<open>a / 2^k\<close> rounded to the nearest natural number, a tie going to the
  even neighbour.
\<close>

definition round_half_even :: "nat \<Rightarrow> nat \<Rightarrow> nat" where
  "round_half_even a k =
     (let q = a div 2 ^ k; r = a mod 2 ^ k
      in if 2 ^ k < 2 * r \<or> (2 * r = 2 ^ k \<and> odd q) then q + 1 else q)"

text \<open>
  The true division \<^verbatim>\<open>num_trials / 2\<close> of a Python integer: the binary64 number
  nearest to the quotient, a tie going to the even significand, and an
  \<^verbatim>\<open>OverflowError\<close> when that number is not finite. A binary64 number has 53
  significant bits, so the quotient is exact up to \<open>2^53\<close> in absolute value. Beyond,
  for an integer of \<open>b\<close> bits, the quotient lies between \<open>2^(b-2)\<close> and
  \<open>2^(b-1)\<close>, where binary64 numbers are the multiples of \<open>2^(b-54)\<close>.
\<close>

definition true_div_2 :: "int \<Rightarrow> error + real" where
  "true_div_2 n =
     (if \<bar>n\<bar> \<le> 2 ^ 53 then Inr (real_of_int n / 2)
      else
        let k = bit_length (nat \<bar>n\<bar>) - 53;
            r = round_half_even (nat \<bar>n\<bar>) k * 2 ^ (k - 1)
        in if 2 ^ 1024 \<le> r then Inl OverflowError
           else Inr (real_of_int (sgn n * int r)))"

text \<open>\<^verbatim>\<open>ceil(num_trials / 2)\<close>: the true division, then the ceiling as an integer.\<close>

definition ceil_half :: "int \<Rightarrow> error + int" where
  "ceil_half n = (case true_div_2 n of Inl e \<Rightarrow> Inl e | Inr x \<Rightarrow> Inr \<lceil>x\<rceil>)"

text \<open>
  \<^verbatim>\<open>min_trials_observed or ceil(num_trials / 2)\<close>: the right operand is evaluated
  only when the left one is \<^verbatim>\<open>None\<close> or 0.
\<close>

definition min_trials_observed_or_ceil :: "int option \<Rightarrow> int \<Rightarrow> error + int" where
  "min_trials_observed_or_ceil min_trials_observed' num_trials' =
     (case min_trials_observed' of
        None \<Rightarrow> ceil_half num_trials'
      | Some m \<Rightarrow> if m = 0 then ceil_half num_trials' else Inr m)"

subsection \<open>The step constructors\<close>

text \<open>
  \<^verbatim>\<open>_make_sobol_step\<close>, lines 33 to 51. The arguments of \<^verbatim>\<open>GenerationStep\<close> are
  evaluated before the step is constructed, so an exception in line 46 leaves no step.
\<close>

definition make_sobol_step ::
  "int \<Rightarrow> int option \<Rightarrow> bool \<Rightarrow> int option \<Rightarrow> int option \<Rightarrow> bool \<Rightarrow>
   error + GenerationStep" where
  "make_sobol_step num_trials' min_trials_observed' enforce_num_trials' max_parallelism'
       seed should_deduplicate' =
     (case min_trials_observed_or_ceil min_trials_observed' num_trials' of
        Inl e \<Rightarrow> Inl e
      | Inr observed \<Rightarrow>
          Inr \<lparr> model = SOBOL,
                num_trials = num_trials',
                min_trials_observed = observed,
                enforce_num_trials = enforce_num_trials',
                max_parallelism = max_parallelism',
                model_kwargs =
                  Some [(''deduplicate'', BoolKwarg True), (''seed'', SeedKwarg seed)],
                should_deduplicate = should_deduplicate' \<rparr>)"

text \<open>
  \<^verbatim>\<open>_make_botorch_step\<close>, lines 54 to 93. The \<^verbatim>\<open>assert\<close> of line 74 is kept as
  a branch of its own.
\<close>

definition make_botorch_step ::
  "registry \<Rightarrow> int \<Rightarrow> int option \<Rightarrow> bool \<Rightarrow> int option \<Rightarrow> Models \<Rightarrow> bool \<Rightarrow>
   (real option \<times> real option) option \<Rightarrow> bool \<Rightarrow> error + GenerationStep" where
  "make_botorch_step reg num_trials' min_trials_observed' enforce_num_trials' max_parallelism'
       model' winsorize winsorization_limits' should_deduplicate' =
     (if (winsorize \<and> winsorization_limits' = None)
          \<or> (winsorization_limits' \<noteq> None \<and> \<not> winsorize)
      then Inl (ValueError winsorization_message)
      else
        case (if winsorize then
                (case winsorization_limits' of
                   None \<Rightarrow> Inl AssertionError
                 | Some limits \<Rightarrow>
                     Inr (Some
                       [(''transforms'',
                           TransformsKwarg ([Winsorize] @ Cont_X_trans reg @ Y_trans reg)),
                        (''transform_configs'',
                           TransformConfigsKwarg
                             [(''Winsorize'',
                                 [(''winsorization_lower'', fst limits),
                                  (''winsorization_upper'', snd limits)])])]))
              else Inr None) of
          Inl e \<Rightarrow> Inl e
        | Inr model_kwargs' \<Rightarrow>
            (case min_trials_observed_or_ceil min_trials_observed' num_trials' of
               Inl e \<Rightarrow> Inl e
             | Inr observed \<Rightarrow>
                 Inr \<lparr> model = model',
                       num_trials = num_trials',
                       min_trials_observed = observed,
                       enforce_num_trials = enforce_num_trials',
                       max_parallelism = max_parallelism',
                       model_kwargs = model_kwargs',
                       should_deduplicate = should_deduplicate' \<rparr>))"

subsection \<open>The model heuristic\<close>

text \<open>The five variables that the loop of \<^verbatim>\<open>_suggest_gp_model\<close> updates.\<close>

record counts =
  num_continuous_parameters :: int
  num_discrete_choices :: int
  num_discrete_combinations :: int
  num_possible_points :: int
  all_range_parameters_are_int :: bool

definition initial_counts :: counts where
  "initial_counts =
     \<lparr> num_continuous_parameters = 0, num_discrete_choices = 0,
       num_discrete_combinations = 1, num_possible_points = 1,
       all_range_parameters_are_int = True \<rparr>"

text \<open>The body of the loop, lines 120 to 129.\<close>

fun count_parameter :: "Parameter \<Rightarrow> counts \<Rightarrow> counts" where
  "count_parameter (ChoiceParameter vs) c =
     c \<lparr> num_discrete_choices := num_discrete_choices c + int (length vs),
         num_discrete_combinations := num_discrete_combinations c * int (length vs),
         num_possible_points := num_possible_points c * int (length vs) \<rparr>"
| "count_parameter (RangeParameter lo up ty) c =
     (let c' = c \<lparr> num_continuous_parameters := num_continuous_parameters c + 1 \<rparr>
      in if ty \<noteq> INT_type then c' \<lparr> all_range_parameters_are_int := False \<rparr>
         else c' \<lparr> num_possible_points := num_possible_points c' * py_int (up - lo) \<rparr>)"
| "count_parameter OtherParameter c = c"

text \<open>\<^verbatim>\<open>_suggest_gp_model\<close>, lines 96 to 174. \<open>None\<close> means Sobol.\<close>

definition suggest_gp_model ::
  "SearchSpace \<Rightarrow> int option \<Rightarrow> OptimizationConfig option \<Rightarrow> bool \<Rightarrow> Models option" where
  "suggest_gp_model search_space' num_trials' optimization_config' use_saasbo' =
     (let c = fold count_parameter (map snd (parameters search_space')) initial_counts
      in if (case num_trials' of
               None \<Rightarrow> False
             | Some n \<Rightarrow> all_range_parameters_are_int c \<and> num_possible_points c \<le> n)
         then None
         else
           let moo = (case optimization_config' of
                        None \<Rightarrow> False
                      | Some oc \<Rightarrow> is_moo_problem oc)
           in if num_continuous_parameters c > num_discrete_choices c then
                (if moo \<and> use_saasbo' then Some FULLYBAYESIANMOO
                 else if moo \<and> \<not> use_saasbo' then Some MOO
                 else if use_saasbo' then Some FULLYBAYESIAN
                 else Some GPEI)
              else if \<not> moo \<and> num_discrete_combinations c \<le> MAX_DISCRETE_COMBINATIONS
                then Some BO_MIXED
              else None)"

subsection \<open>Choosing the strategy\<close>

text \<open>
  The arguments of \<^verbatim>\<open>choose_generation_strategy\<close>. The arguments
  \<^verbatim>\<open>num_trials\<close>, \<^verbatim>\<open>should_deduplicate\<close> and \<^verbatim>\<open>experiment\<close> share their
  name with a field of a generation step or with a keyword and carry the suffix
  \<open>_arg\<close>; the attribute \<^verbatim>\<open>experiment\<close> of the strategy is the field
  \<open>strategy_experiment\<close>.
\<close>

record args =
  search_space :: SearchSpace
  use_batch_trials :: bool
  enforce_sequential_optimization :: bool
  random_seed :: "int option"
  winsorize_botorch_model :: bool
  winsorization_limits :: "(real option \<times> real option) option"
  no_bayesian_optimization :: bool
  num_trials_arg :: "int option"
  num_initialization_trials :: "int option"
  max_parallelism_cap :: "int option"
  max_parallelism_override :: "int option"
  optimization_config :: "OptimizationConfig option"
  should_deduplicate_arg :: bool
  use_saasbo :: bool
  experiment_arg :: "Experiment option"

text \<open>The defaults of the keyword arguments, line 177 to 193.\<close>

definition default_args :: "SearchSpace \<Rightarrow> args" where
  "default_args ss =
     \<lparr> search_space = ss,
       use_batch_trials = False,
       enforce_sequential_optimization = True,
       random_seed = None,
       winsorize_botorch_model = False,
       winsorization_limits = None,
       no_bayesian_optimization = False,
       num_trials_arg = None,
       num_initialization_trials = None,
       max_parallelism_cap = None,
       max_parallelism_override = None,
       optimization_config = None,
       should_deduplicate_arg = False,
       use_saasbo = False,
       experiment_arg = None \<rparr>"

text \<open>Lines 265 to 270: the number of initialization trials, estimated when not given.\<close>

definition initialization_trials :: "args \<Rightarrow> int" where
  "initialization_trials a =
     (case num_initialization_trials a of
        Some n \<Rightarrow> n
      | None \<Rightarrow>
          if use_batch_trials a then 1
          else max 5 (int (length (parameters (search_space a)))))"

text \<open>
  Lines 272 to 288: the pair \<^verbatim>\<open>(sobol_parallelism, bo_parallelism)\<close>.
\<close>

definition parallelism :: "args \<Rightarrow> int option \<times> int option" where
  "parallelism a =
     (if max_parallelism_override a = Some (- 1) then (None, None)
      else if max_parallelism_override a \<noteq> None
        then (max_parallelism_override a, max_parallelism_override a)
      else if max_parallelism_cap a \<noteq> None
        then (max_parallelism_cap a,
              map_option (\<lambda>cap. min cap DEFAULT_BAYESIAN_PARALLELISM) (max_parallelism_cap a))
      else if \<not> enforce_sequential_optimization a then (None, None)
      else (None, Some DEFAULT_BAYESIAN_PARALLELISM))"

text \<open>
  Lines 322 to 323: the experiment, when given, is attached to the strategy (an
  experiment object counts as true).
\<close>

definition attach_experiment :: "args \<Rightarrow> GenerationStrategy \<Rightarrow> GenerationStrategy" where
  "attach_experiment a gs =
     (case experiment_arg a of
        None \<Rightarrow> gs
      | Some e \<Rightarrow> gs \<lparr> strategy_experiment := Some e \<rparr>)"

text \<open>
  Lines 252 to 312, the branch taken when a model \<open>m\<close> was suggested and Bayesian
  optimization is not switched off. The first component of the result lists the
  generation steps that have been constructed when the branch ends, in the order of
  their construction: Python evaluates the elements of the list \<^verbatim>\<open>steps=[...]\<close> from
  left to right, so the Sobol step exists before \<^verbatim>\<open>_make_botorch_step\<close> is entered.
\<close>

definition bayesian_branch ::
  "registry \<Rightarrow> args \<Rightarrow> Models \<Rightarrow> GenerationStep list \<times> (error + GenerationStrategy)" where
  "bayesian_branch reg a m =
     (if truthy (max_parallelism_override a) \<and> truthy (max_parallelism_cap a)
      then ([], Inl (ValueError parallelism_message))
      else
        let num_initialization_trials' = initialization_trials a;
            (sobol_parallelism, bo_parallelism) = parallelism a
        in case make_sobol_step num_initialization_trials' None
                  (enforce_sequential_optimization a) sobol_parallelism (random_seed a)
                  (should_deduplicate_arg a) of
             Inl e \<Rightarrow> ([], Inl e)
           | Inr sobol_step \<Rightarrow>
               (case make_botorch_step reg (- 1) None True bo_parallelism m
                       (winsorize_botorch_model a) (winsorization_limits a)
                       (should_deduplicate_arg a) of
                  Inl e \<Rightarrow> ([sobol_step], Inl e)
                | Inr botorch_step \<Rightarrow>
                    ([sobol_step, botorch_step],
                     Inr (attach_experiment a
                            \<lparr> steps = [sobol_step, botorch_step],
                              strategy_experiment = None \<rparr>))))"

text \<open>Lines 313 to 321, the branch that uses Sobol alone.\<close>

definition sobol_branch :: "args \<Rightarrow> GenerationStep list \<times> (error + GenerationStrategy)" where
  "sobol_branch a =
     (case make_sobol_step (- 1) None True None (random_seed a) (should_deduplicate_arg a) of
        Inl e \<Rightarrow> ([], Inl e)
      | Inr sobol_step \<Rightarrow>
          ([sobol_step],
           Inr (attach_experiment a \<lparr> steps = [sobol_step], strategy_experiment = None \<rparr>)))"

text \<open>
  \<^verbatim>\<open>choose_generation_strategy\<close>, lines 177 to 324, with the constructed steps made
  explicit, and then as the caller sees it: an exception or the strategy.
\<close>

definition choose_generation_strategy_built ::
  "registry \<Rightarrow> args \<Rightarrow> GenerationStep list \<times> (error + GenerationStrategy)" where
  "choose_generation_strategy_built reg a =
     (let suggested_model =
            suggest_gp_model (search_space a) (num_trials_arg a) (optimization_config a)
              (use_saasbo a)
      in case suggested_model of
           Some m \<Rightarrow>
             if \<not> no_bayesian_optimization a then bayesian_branch reg a m
             else sobol_branch a
         | None \<Rightarrow> sobol_branch a)"

definition choose_generation_strategy :: "registry \<Rightarrow> args \<Rightarrow> error + GenerationStrategy" where
  "choose_generation_strategy reg a = snd (choose_generation_strategy_built reg a)"

subsection \<open>Summary statistics of a search space, as the specification words them\<close>

text \<open>
  The following definitions do not come from the code. They say what the claims about
  the heuristic speak of: the number of range parameters, the total number of choice
  values, the number of combinations of choice values, and the number of points of a
  space whose range parameters are all integer-typed, where an integer range counts
  \<^verbatim>\<open>int(upper - lower)\<close> points.
\<close>

definition is_range :: "Parameter \<Rightarrow> bool" where
  "is_range p = (case p of RangeParameter lo up ty \<Rightarrow> True | _ \<Rightarrow> False)"

definition is_int_or_not_range :: "Parameter \<Rightarrow> bool" where
  "is_int_or_not_range p =
     (case p of RangeParameter lo up ty \<Rightarrow> ty = INT_type | _ \<Rightarrow> True)"

definition choice_count :: "Parameter \<Rightarrow> int" where
  "choice_count p = (case p of ChoiceParameter vs \<Rightarrow> int (length vs) | _ \<Rightarrow> 0)"

definition choice_factor :: "Parameter \<Rightarrow> int" where
  "choice_factor p = (case p of ChoiceParameter vs \<Rightarrow> int (length vs) | _ \<Rightarrow> 1)"

definition point_factor :: "Parameter \<Rightarrow> int" where
  "point_factor p =
     (case p of
        ChoiceParameter vs \<Rightarrow> int (length vs)
      | RangeParameter lo up ty \<Rightarrow> py_int (up - lo)
      | OtherParameter \<Rightarrow> 1)"

definition range_parameter_count :: "SearchSpace \<Rightarrow> int" where
  "range_parameter_count ss = int (length (filter is_range (map snd (parameters ss))))"

definition choice_value_count :: "SearchSpace \<Rightarrow> int" where
  "choice_value_count ss = sum_list (map choice_count (map snd (parameters ss)))"

definition choice_combinations :: "SearchSpace \<Rightarrow> int" where
  "choice_combinations ss = prod_list (map choice_factor (map snd (parameters ss)))"

definition all_ranges_integer :: "SearchSpace \<Rightarrow> bool" where
  "all_ranges_integer ss = list_all is_int_or_not_range (map snd (parameters ss))"

definition enumerable_points :: "SearchSpace \<Rightarrow> int" where
  "enumerable_points ss = prod_list (map point_factor (map snd (parameters ss)))"

text \<open>The enumerable-space rule: the budget is known and covers every point.\<close>

definition enumerable_rule :: "SearchSpace \<Rightarrow> int option \<Rightarrow> bool" where
  "enumerable_rule ss budget =
     (case budget of
        None \<Rightarrow> False
      | Some n \<Rightarrow> all_ranges_integer ss \<and> enumerable_points ss \<le> n)"

text \<open>Single-objective includes the case that no optimization config is given.\<close>

definition multi_objective :: "OptimizationConfig option \<Rightarrow> bool" where
  "multi_objective oc = (case oc of None \<Rightarrow> False | Some c \<Rightarrow> is_moo_problem c)"

subsection \<open>Example inputs\<close>

text \<open>Five float ranges and one choice of two values.\<close>

definition continuous_space :: SearchSpace where
  "continuous_space =
     \<lparr> parameters =
         [(''x1'', RangeParameter 0 1 FLOAT_type),
          (''x2'', RangeParameter 0 1 FLOAT_type),
          (''x3'', RangeParameter 0 1 FLOAT_type),
          (''x4'', RangeParameter 0 1 FLOAT_type),
          (''x5'', RangeParameter 0 1 FLOAT_type),
          (''c'', ChoiceParameter [StrValue ''a'', StrValue ''b''])] \<rparr>"

text \<open>Three integer ranges from 0 to 10.\<close>

definition integer_space :: SearchSpace where
  "integer_space =
     \<lparr> parameters =
         [(''i1'', RangeParameter 0 10 INT_type),
          (''i2'', RangeParameter 0 10 INT_type),
          (''i3'', RangeParameter 0 10 INT_type)] \<rparr>"

text \<open>Two choices of three values each, and four choices of three values each.\<close>

definition three_values :: "TParamValue list" where
  "three_values = [IntValue 1, IntValue 2, IntValue 3]"

definition small_choice_space :: SearchSpace where
  "small_choice_space =
     \<lparr> parameters =
         [(''c1'', ChoiceParameter three_values), (''c2'', ChoiceParameter three_values)] \<rparr>"

definition large_choice_space :: SearchSpace where
  "large_choice_space =
     \<lparr> parameters =
         [(''c1'', ChoiceParameter three_values), (''c2'', ChoiceParameter three_values),
          (''c3'', ChoiceParameter three_values), (''c4'', ChoiceParameter three_values)] \<rparr>"

definition example_registry :: registry where
  "example_registry =
     \<lparr> Cont_X_trans = [Transform ''UnitX''], Y_trans = [Transform ''StandardizeY''] \<rparr>"

text \<open>
  The steps that the examples below produce: a Sobol step, and a step that runs the
  model \<open>GPEI\<close> without a winsorization transform.
\<close>

definition example_sobol_step :: "int \<Rightarrow> int \<Rightarrow> int option \<Rightarrow> GenerationStep" where
  "example_sobol_step budget observed limit =
     \<lparr> model = SOBOL, num_trials = budget, min_trials_observed = observed,
       enforce_num_trials = True, max_parallelism = limit,
       model_kwargs = Some [(''deduplicate'', BoolKwarg True), (''seed'', SeedKwarg None)],
       should_deduplicate = False \<rparr>"

definition example_gpei_step :: "int option \<Rightarrow> GenerationStep" where
  "example_gpei_step limit =
     \<lparr> model = GPEI, num_trials = - 1, min_trials_observed = 0,
       enforce_num_trials = True, max_parallelism = limit, model_kwargs = None,
       should_deduplicate = False \<rparr>"

section \<open>Properties\<close>

subsection \<open>Unfolding and evaluation\<close>

lemma py_int_of_int: "py_int (real_of_int u - real_of_int l) = u - l"
proof -
  have "py_int (real_of_int (u - l)) = u - l"
    by (simp add: py_int_def)
  then show ?thesis by simp
qed

lemmas heuristic_defs = suggest_gp_model_def initial_counts_def py_int_def
  MAX_DISCRETE_COMBINATIONS_def Let_def

lemmas summary_defs = range_parameter_count_def choice_value_count_def
  choice_combinations_def all_ranges_integer_def enumerable_points_def enumerable_rule_def
  multi_objective_def is_range_def is_int_or_not_range_def choice_count_def
  choice_factor_def point_factor_def

subsection \<open>What the loop computes\<close>

lemma fold_num_continuous_parameters:
  "num_continuous_parameters (fold count_parameter ps c) =
     num_continuous_parameters c + int (length (filter is_range ps))"
proof (induction ps arbitrary: c)
  case Nil
  show ?case by simp
next
  case (Cons p ps)
  show ?case by (cases p) (simp_all add: Cons.IH is_range_def Let_def)
qed

lemma fold_num_discrete_choices:
  "num_discrete_choices (fold count_parameter ps c) =
     num_discrete_choices c + sum_list (map choice_count ps)"
proof (induction ps arbitrary: c)
  case Nil
  show ?case by simp
next
  case (Cons p ps)
  show ?case by (cases p) (simp_all add: Cons.IH choice_count_def Let_def)
qed

lemma fold_num_discrete_combinations:
  "num_discrete_combinations (fold count_parameter ps c) =
     num_discrete_combinations c * prod_list (map choice_factor ps)"
proof (induction ps arbitrary: c)
  case Nil
  show ?case by simp
next
  case (Cons p ps)
  show ?case by (cases p) (simp_all add: Cons.IH choice_factor_def Let_def)
qed

lemma fold_all_range_parameters_are_int:
  "all_range_parameters_are_int (fold count_parameter ps c) =
     (all_range_parameters_are_int c \<and> list_all is_int_or_not_range ps)"
proof (induction ps arbitrary: c)
  case Nil
  show ?case by simp
next
  case (Cons p ps)
  show ?case by (cases p) (auto simp add: Cons.IH is_int_or_not_range_def Let_def)
qed

lemma fold_num_possible_points:
  "list_all is_int_or_not_range ps \<Longrightarrow>
     num_possible_points (fold count_parameter ps c) =
       num_possible_points c * prod_list (map point_factor ps)"
proof (induction ps arbitrary: c)
  case Nil
  show ?case by simp
next
  case (Cons p ps)
  then show ?case
    by (cases p) (simp_all add: is_int_or_not_range_def point_factor_def Let_def)
qed

text \<open>
  The heuristic as an ordered list of rules over the summary statistics: the
  enumerable-space rule, the continuous-dominant rule, the rule for a bounded number of
  categorical combinations, and the fallback.
\<close>

lemma enumerable_test:
  "(case budget of
      None \<Rightarrow> False
    | Some n \<Rightarrow>
        all_range_parameters_are_int
          (fold count_parameter (map snd (parameters ss)) initial_counts) \<and>
        num_possible_points
          (fold count_parameter (map snd (parameters ss)) initial_counts) \<le> n) =
   enumerable_rule ss budget"
proof (cases budget)
  case None
  then show ?thesis by (simp add: enumerable_rule_def)
next
  case (Some n)
  show ?thesis
  proof (cases "list_all is_int_or_not_range (map snd (parameters ss))")
    case True
    then show ?thesis
      using fold_num_possible_points [OF True, of initial_counts]
      by (simp add: Some enumerable_rule_def all_ranges_integer_def enumerable_points_def
          fold_all_range_parameters_are_int initial_counts_def)
  next
    case False
    then show ?thesis
      by (simp add: Some enumerable_rule_def all_ranges_integer_def
          fold_all_range_parameters_are_int)
  qed
qed

lemma suggest_gp_model_rules:
  "suggest_gp_model ss budget oc saasbo =
     (if enumerable_rule ss budget then None
      else if range_parameter_count ss > choice_value_count ss then
        (if multi_objective oc \<and> saasbo then Some FULLYBAYESIANMOO
         else if multi_objective oc then Some MOO
         else if saasbo then Some FULLYBAYESIAN
         else Some GPEI)
      else if \<not> multi_objective oc \<and> choice_combinations ss \<le> 65 then Some BO_MIXED
      else None)"
  unfolding suggest_gp_model_def Let_def enumerable_test
  by (simp add: fold_num_continuous_parameters fold_num_discrete_choices
      fold_num_discrete_combinations initial_counts_def range_parameter_count_def
      choice_value_count_def choice_combinations_def multi_objective_def
      MAX_DISCRETE_COMBINATIONS_def)

subsection \<open>The heuristic\<close>

text \<open>
  Claim C3. If every range parameter of the search space is integer-typed and the
  product of the value counts of the choice parameters and of the spans
  \<^verbatim>\<open>int(upper - lower)\<close> of the range parameters is at most the known number of
  trials, then \<^verbatim>\<open>_suggest_gp_model\<close> returns \<^verbatim>\<open>None\<close>, whatever the optimization
  config and the SAASBO flag are. For bounds that are whole numbers the span is
  \<open>upper - lower\<close> (lemma \<open>py_int_of_int\<close>): three integer ranges from 0 to 10
  count 1000 points, so a budget of 1000 trials is enough.
\<close>

theorem enumerable_space_suggests_none:
  assumes "all_ranges_integer ss"
    and "enumerable_points ss \<le> n"
  shows "suggest_gp_model ss (Some n) oc saasbo = None"
  using assms by (simp add: suggest_gp_model_rules enumerable_rule_def)

theorem enumerable_space_suggests_none_witness:
  "all_ranges_integer integer_space \<and> enumerable_points integer_space = 1000 \<and>
   suggest_gp_model integer_space (Some 1000) None False = None \<and>
   suggest_gp_model integer_space (Some 2000) (Some \<lparr> is_moo_problem = True \<rparr>) True = None"
proof -
  have h1: "all_ranges_integer integer_space"
    by (simp add: summary_defs integer_space_def)
  have h2: "enumerable_points integer_space = 1000"
    by (simp add: summary_defs integer_space_def py_int_def)
  have h3: "enumerable_points integer_space \<le> 1000"
    and h4: "enumerable_points integer_space \<le> 2000"
    by (simp_all add: h2)
  show ?thesis
    using h1 h2 enumerable_space_suggests_none [OF h1 h3]
      enumerable_space_suggests_none [OF h1 h4]
    by simp
qed

text \<open>
  Claim C4. When the enumerable-space rule does not match and there are strictly more
  range parameters than choice values in total, \<^verbatim>\<open>_suggest_gp_model\<close> returns
  \<open>FULLYBAYESIANMOO\<close> for a multi-objective problem with SAASBO, \<open>MOO\<close> for a
  multi-objective problem without SAASBO, \<open>FULLYBAYESIAN\<close> for a single-objective
  problem with SAASBO, and \<open>GPEI\<close> for a single-objective problem without SAASBO.
\<close>

theorem continuous_dominant_suggestion:
  assumes "\<not> enumerable_rule ss budget"
    and "range_parameter_count ss > choice_value_count ss"
  shows "suggest_gp_model ss budget oc saasbo =
           Some (if multi_objective oc
                 then (if saasbo then FULLYBAYESIANMOO else MOO)
                 else (if saasbo then FULLYBAYESIAN else GPEI))"
  using assms by (simp add: suggest_gp_model_rules)

theorem continuous_dominant_suggestion_witness:
  "\<not> enumerable_rule continuous_space None \<and>
   range_parameter_count continuous_space > choice_value_count continuous_space \<and>
   suggest_gp_model continuous_space None (Some \<lparr> is_moo_problem = True \<rparr>) True =
     Some FULLYBAYESIANMOO \<and>
   suggest_gp_model continuous_space None (Some \<lparr> is_moo_problem = True \<rparr>) False =
     Some MOO \<and>
   suggest_gp_model continuous_space None None True = Some FULLYBAYESIAN \<and>
   suggest_gp_model continuous_space None (Some \<lparr> is_moo_problem = False \<rparr>) False =
     Some GPEI"
proof -
  have h1: "\<not> enumerable_rule continuous_space None"
    by (simp add: enumerable_rule_def)
  have h2: "range_parameter_count continuous_space > choice_value_count continuous_space"
    by (simp add: summary_defs continuous_space_def)
  show ?thesis
    using h1 h2
      continuous_dominant_suggestion [OF h1 h2, of "Some \<lparr> is_moo_problem = True \<rparr>" True]
      continuous_dominant_suggestion [OF h1 h2, of "Some \<lparr> is_moo_problem = True \<rparr>" False]
      continuous_dominant_suggestion [OF h1 h2, of None True]
      continuous_dominant_suggestion [OF h1 h2, of "Some \<lparr> is_moo_problem = False \<rparr>" False]
    by (simp add: multi_objective_def)
qed

text \<open>
  Claim C6. When neither the enumerable-space rule nor the continuous-dominant rule
  matches: for a single-objective problem (also when no optimization config is given)
  whose choice parameters have at most 65 combinations of values,
  \<^verbatim>\<open>_suggest_gp_model\<close> returns \<open>BO_MIXED\<close>; otherwise it returns \<^verbatim>\<open>None\<close>.
\<close>

theorem bounded_categorical_suggestion:
  assumes "\<not> enumerable_rule ss budget"
    and "\<not> range_parameter_count ss > choice_value_count ss"
  shows "suggest_gp_model ss budget oc saasbo =
           (if \<not> multi_objective oc \<and> choice_combinations ss \<le> 65
            then Some BO_MIXED else None)"
  using assms by (simp add: suggest_gp_model_rules)

theorem bounded_categorical_suggestion_witness:
  "\<not> enumerable_rule small_choice_space None \<and>
   \<not> range_parameter_count small_choice_space > choice_value_count small_choice_space \<and>
   \<not> enumerable_rule large_choice_space None \<and>
   \<not> range_parameter_count large_choice_space > choice_value_count large_choice_space \<and>
   choice_combinations small_choice_space = 9 \<and>
   choice_combinations large_choice_space = 81 \<and>
   suggest_gp_model small_choice_space None None False = Some BO_MIXED \<and>
   suggest_gp_model small_choice_space None (Some \<lparr> is_moo_problem = True \<rparr>) False = None \<and>
   suggest_gp_model large_choice_space None None False = None"
proof -
  have h1: "\<not> enumerable_rule small_choice_space None"
    and h3: "\<not> enumerable_rule large_choice_space None"
    by (simp_all add: enumerable_rule_def)
  have h2: "\<not> range_parameter_count small_choice_space > choice_value_count small_choice_space"
    by (simp add: summary_defs small_choice_space_def three_values_def)
  have h4: "\<not> range_parameter_count large_choice_space > choice_value_count large_choice_space"
    by (simp add: summary_defs large_choice_space_def three_values_def)
  have c1: "choice_combinations small_choice_space = 9"
    by (simp add: summary_defs small_choice_space_def three_values_def)
  have c2: "choice_combinations large_choice_space = 81"
    by (simp add: summary_defs large_choice_space_def three_values_def)
  show ?thesis
    using h1 h2 h3 h4 c1 c2
      bounded_categorical_suggestion [OF h1 h2, of None False]
      bounded_categorical_suggestion [OF h1 h2, of "Some \<lparr> is_moo_problem = True \<rparr>" False]
      bounded_categorical_suggestion [OF h3 h4, of None False]
    by (simp add: multi_objective_def)
qed

subsection \<open>The division by two\<close>

lemma ceil_half_exact:
  assumes "\<bar>n\<bar> \<le> 2 ^ 53"
  shows "ceil_half n = Inr (- ((- n) div 2))"
  using assms ceiling_divide_eq_div [of n 2] by (simp add: ceil_half_def true_div_2_def)

lemma ceil_half_exact_ceiling:
  assumes "\<bar>n\<bar> \<le> 2 ^ 53"
  shows "ceil_half n = Inr \<lceil>real_of_int n / 2\<rceil>"
  using assms by (simp add: ceil_half_def true_div_2_def)

lemma bit_length_upper: "n < 2 ^ bit_length n"
proof (induction n rule: bit_length.induct)
  case (1 n)
  show ?case
  proof (cases "n = 0")
    case True
    then show ?thesis by (simp add: bit_length.simps)
  next
    case False
    with "1" have "n div 2 < 2 ^ bit_length (n div 2)" by simp
    then have "n < 2 * 2 ^ bit_length (n div 2)" by linarith
    with False show ?thesis by (simp add: bit_length.simps [of n])
  qed
qed

lemma bit_length_le: "n < 2 ^ m \<Longrightarrow> bit_length n \<le> m"
proof (induction n arbitrary: m rule: bit_length.induct)
  case (1 n)
  show ?case
  proof (cases "n = 0")
    case True
    then show ?thesis by (simp add: bit_length.simps)
  next
    case False
    with "1.prems" obtain m' where m: "m = Suc m'"
      by (cases m) auto
    with "1.prems" have "n div 2 < 2 ^ m'" by simp
    with "1.IH" [OF False] have "bit_length (n div 2) \<le> m'" .
    with False m show ?thesis by (simp add: bit_length.simps [of n])
  qed
qed

lemma bit_length_lower: "n \<noteq> 0 \<Longrightarrow> 2 ^ (bit_length n - 1) \<le> n"
proof (induction n rule: bit_length.induct)
  case (1 n)
  show ?case
  proof (cases "n div 2 = 0")
    case True
    with "1.prems" have "n = 1" by (simp add: div_eq_0_iff)
    then show ?thesis by (simp add: bit_length.simps)
  next
    case False
    with "1.IH" "1.prems" have "2 ^ (bit_length (n div 2) - 1) \<le> n div 2" by simp
    moreover from False have "bit_length (n div 2) \<noteq> 0"
      by (simp add: bit_length.simps [of "n div 2"])
    ultimately have "2 ^ bit_length (n div 2) \<le> 2 * (n div 2)"
      by (cases "bit_length (n div 2)") simp_all
    then have "2 ^ bit_length (n div 2) \<le> n" by linarith
    with "1.prems" show ?thesis by (simp add: bit_length.simps [of n])
  qed
qed

lemma le_bit_length:
  assumes "2 ^ m \<le> n"
  shows "m < bit_length n"
proof -
  from assms bit_length_upper [of n] have "(2::nat) ^ m < 2 ^ bit_length n"
    by (rule le_less_trans)
  then show ?thesis by (rule power_less_imp_less_exp [rotated]) simp
qed

lemma round_half_even_bounds:
  "a div 2 ^ k \<le> round_half_even a k" "round_half_even a k \<le> a div 2 ^ k + 1"
  by (simp_all add: round_half_even_def Let_def)

text \<open>
  The rounded quotient for a precision of \<open>p\<close> bits: it stays below \<open>2^e\<close> for a
  dividend below \<open>2^e\<close>, and it reaches \<open>2^e\<close> for a dividend from \<open>2^(e+1)\<close> on.
\<close>

lemma rounded_quotient_less:
  assumes "2 ^ p < a" and "a < 2 ^ e"
  shows "round_half_even a (bit_length a - p) * 2 ^ (bit_length a - p - 1) < 2 ^ e"
proof -
  define b where "b = bit_length a"
  define k where "k = b - p"
  have upper: "a < 2 ^ b"
    unfolding b_def by (rule bit_length_upper)
  with assms(1) have "(2::nat) ^ p < 2 ^ b" by (rule less_trans)
  then have "p < b" by (rule power_less_imp_less_exp [rotated]) simp
  then have b_eq: "b = p + k" and k_pos: "0 < k"
    unfolding k_def by simp_all
  from assms(2) have b_le: "b \<le> e"
    unfolding b_def by (rule bit_length_le)
  from upper have "a < 2 ^ p * 2 ^ k"
    by (simp add: b_eq power_add)
  then have "a div 2 ^ k < 2 ^ p"
    by (simp add: less_mult_imp_div_less)
  with round_half_even_bounds(2) [of a k] have "round_half_even a k \<le> 2 ^ p" by linarith
  then have "round_half_even a k * 2 ^ (k - 1) \<le> 2 ^ p * 2 ^ (k - 1)"
    by (rule mult_right_mono) simp
  also have "\<dots> = 2 ^ (b - 1)"
    using k_pos by (simp add: b_eq flip: power_add)
  also have "\<dots> < 2 ^ b"
    using \<open>p < b\<close> by (intro power_strict_increasing) simp_all
  also have "\<dots> \<le> 2 ^ e"
    using b_le by (intro power_increasing) simp_all
  finally show ?thesis
    unfolding k_def b_def .
qed

lemma rounded_quotient_ge:
  assumes "2 ^ Suc e \<le> a" and "0 < p" and "p \<le> e"
  shows "2 ^ e \<le> round_half_even a (bit_length a - p) * 2 ^ (bit_length a - p - 1)"
proof -
  define b where "b = bit_length a"
  define k where "k = b - p"
  from assms(1) have b_gt: "Suc e < b"
    unfolding b_def by (rule le_bit_length)
  with assms(2,3) have b_eq: "b - 1 = (p - 1) + k" and k_eq: "(p - 1) + (k - 1) = b - 2"
    unfolding k_def by simp_all
  have "(0::nat) < 2 ^ Suc e" by simp
  with assms(1) have "a \<noteq> 0" by linarith
  then have "2 ^ (b - 1) \<le> a"
    unfolding b_def by (rule bit_length_lower)
  moreover have "(2::nat) ^ (b - 1) = 2 ^ (p - 1) * 2 ^ k"
    by (simp only: b_eq power_add)
  ultimately have "2 ^ (p - 1) * 2 ^ k \<le> a"
    by (simp only:)
  then have "2 ^ (p - 1) \<le> a div 2 ^ k"
    by (simp add: less_eq_div_iff_mult_less_eq)
  with round_half_even_bounds(1) [of a k] have "2 ^ (p - 1) \<le> round_half_even a k"
    by linarith
  then have "2 ^ (p - 1) * 2 ^ (k - 1) \<le> round_half_even a k * 2 ^ (k - 1)"
    by (rule mult_right_mono) simp
  moreover have "(2::nat) ^ (p - 1) * 2 ^ (k - 1) = 2 ^ (b - 2)"
    by (simp only: k_eq flip: power_add)
  moreover have "(2::nat) ^ e \<le> 2 ^ (b - 2)"
    using b_gt by (intro power_increasing) simp_all
  ultimately show ?thesis
    unfolding k_def b_def by linarith
qed

lemma nat_abs_less: "\<bar>n\<bar> < 2 ^ e \<Longrightarrow> nat \<bar>n\<bar> < 2 ^ e"
  and nat_abs_ge: "2 ^ e \<le> \<bar>n\<bar> \<Longrightarrow> 2 ^ e \<le> nat \<bar>n\<bar>"
  and nat_abs_gt: "\<not> \<bar>n\<bar> \<le> 2 ^ e \<Longrightarrow> 2 ^ e < nat \<bar>n\<bar>"
proof -
  have "int (nat \<bar>n\<bar>) = \<bar>n\<bar>" by simp
  moreover have "int (2 ^ e) = 2 ^ e" by simp
  ultimately show "\<bar>n\<bar> < 2 ^ e \<Longrightarrow> nat \<bar>n\<bar> < 2 ^ e"
    and "2 ^ e \<le> \<bar>n\<bar> \<Longrightarrow> 2 ^ e \<le> nat \<bar>n\<bar>"
    and "\<not> \<bar>n\<bar> \<le> 2 ^ e \<Longrightarrow> 2 ^ e < nat \<bar>n\<bar>"
    by (metis of_nat_less_iff, metis of_nat_le_iff, metis of_nat_less_iff not_le)
qed

text \<open>Below \<open>2^1024\<close> in absolute value the division does not overflow.\<close>

lemma ceil_half_defined:
  assumes "\<bar>n\<bar> < 2 ^ 1024"
  shows "\<exists>v. ceil_half n = Inr v"
proof (cases "\<bar>n\<bar> \<le> 2 ^ 53")
  case True
  then show ?thesis by (simp add: ceil_half_exact)
next
  case False
  from rounded_quotient_less [OF nat_abs_gt [OF False] nat_abs_less [OF assms]] False
  show ?thesis
    by (simp add: ceil_half_def true_div_2_def Let_def)
qed

text \<open>From \<open>2^1025\<close> in absolute value on the division overflows.\<close>

lemma ceil_half_overflow:
  assumes "2 ^ 1025 \<le> \<bar>n\<bar>"
  shows "ceil_half n = Inl OverflowError"
proof -
  have "(2::int) ^ 53 < 2 ^ 1025"
    by (intro power_strict_increasing) simp_all
  with assms have large: "\<not> \<bar>n\<bar> \<le> 2 ^ 53" by linarith
  from assms have "2 ^ Suc 1024 \<le> nat \<bar>n\<bar>"
    by (intro nat_abs_ge) simp
  from rounded_quotient_ge [OF this, of 53] large show ?thesis
    by (simp add: ceil_half_def true_div_2_def Let_def)
qed

text \<open>
  Beyond \<open>2^53\<close> the result is not the exact ceiling any more, and a number of
  \<open>10^400\<close> trials overflows.
\<close>

lemma bit_length_54:
  "bit_length 9007199254740993 = 54" "bit_length 9007199254740995 = 54"
  by (simp_all add: bit_length.simps)

lemma ceil_half_rounds:
  "ceil_half 9007199254740993 = Inr 4503599627370496"
  "ceil_half 9007199254740995 = Inr 4503599627370498"
  by (simp_all add: ceil_half_def true_div_2_def round_half_even_def bit_length_54 Let_def)

lemma ceil_half_overflows: "ceil_half (10 ^ 400) = Inl OverflowError"
  by (rule ceil_half_overflow) simp

subsection \<open>What the step constructors return\<close>

lemma ceil_half_error: "ceil_half n = Inl e \<Longrightarrow> e = OverflowError"
  by (auto simp add: ceil_half_def true_div_2_def Let_def split: if_splits sum.splits)

lemma min_trials_observed_unbounded: "min_trials_observed_or_ceil None (- 1) = Inr 0"
  by (simp add: min_trials_observed_or_ceil_def ceil_half_exact)

lemma sobol_step_overflow:
  "ceil_half n = Inl e \<Longrightarrow> make_sobol_step n None enf limit seed dedup = Inl e"
  by (simp add: make_sobol_step_def min_trials_observed_or_ceil_def)

lemma sobol_step_built:
  "ceil_half n = Inr v \<Longrightarrow>
     make_sobol_step n None enf limit seed dedup =
       Inr \<lparr> model = SOBOL, num_trials = n, min_trials_observed = v,
             enforce_num_trials = enf, max_parallelism = limit,
             model_kwargs = Some [(''deduplicate'', BoolKwarg True), (''seed'', SeedKwarg seed)],
             should_deduplicate = dedup \<rparr>"
  by (simp add: make_sobol_step_def min_trials_observed_or_ceil_def)

lemma botorch_step_inconsistent:
  "w \<noteq> (l \<noteq> None) \<Longrightarrow>
     make_botorch_step reg n mto e p m w l d = Inl (ValueError winsorization_message)"
  by (auto simp add: make_botorch_step_def)

lemma botorch_step_consistent:
  "w = (l \<noteq> None) \<Longrightarrow> \<exists>kw.
     make_botorch_step reg (- 1) None e p m w l d =
       Inr \<lparr> model = m, num_trials = - 1, min_trials_observed = 0,
             enforce_num_trials = e, max_parallelism = p, model_kwargs = kw,
             should_deduplicate = d \<rparr>"
  by (auto simp add: make_botorch_step_def min_trials_observed_unbounded)

lemma messages_differ: "parallelism_message \<noteq> winsorization_message"
  by (simp add: parallelism_message_def winsorization_message_def)

lemma attach_experiment_steps: "steps (attach_experiment a gs) = steps gs"
  by (simp add: attach_experiment_def split: option.splits)

subsection \<open>The two branches of \<^verbatim>\<open>choose_generation_strategy\<close>\<close>

lemma built_without_model:
  assumes "suggest_gp_model (search_space a) (num_trials_arg a) (optimization_config a)
             (use_saasbo a) = None \<or> no_bayesian_optimization a"
  shows "choose_generation_strategy_built reg a = sobol_branch a"
  using assms by (auto simp add: choose_generation_strategy_built_def split: option.splits)

lemma built_with_model:
  assumes "suggest_gp_model (search_space a) (num_trials_arg a) (optimization_config a)
             (use_saasbo a) = Some m"
    and "\<not> no_bayesian_optimization a"
  shows "choose_generation_strategy_built reg a = bayesian_branch reg a m"
  using assms by (simp add: choose_generation_strategy_built_def)

lemma choose_generation_strategy_with_model:
  assumes "suggest_gp_model (search_space a) (num_trials_arg a) (optimization_config a)
             (use_saasbo a) = Some m"
    and "\<not> no_bayesian_optimization a"
  shows "choose_generation_strategy reg a = snd (bayesian_branch reg a m)"
  by (simp add: choose_generation_strategy_def built_with_model [OF assms])

lemma choose_generation_strategy_without_model:
  assumes "suggest_gp_model (search_space a) (num_trials_arg a) (optimization_config a)
             (use_saasbo a) = None \<or> no_bayesian_optimization a"
  shows "choose_generation_strategy reg a = snd (sobol_branch a)"
  by (simp add: choose_generation_strategy_def built_without_model [OF assms])

text \<open>The Sobol branch always returns the same single step.\<close>

lemma sobol_branch_result:
  "sobol_branch a =
     (let sobol_step =
            \<lparr> model = SOBOL, num_trials = - 1, min_trials_observed = 0,
              enforce_num_trials = True, max_parallelism = None,
              model_kwargs =
                Some [(''deduplicate'', BoolKwarg True), (''seed'', SeedKwarg (random_seed a))],
              should_deduplicate = should_deduplicate_arg a \<rparr>
      in ([sobol_step],
          Inr (attach_experiment a \<lparr> steps = [sobol_step], strategy_experiment = None \<rparr>)))"
  by (simp add: sobol_branch_def make_sobol_step_def min_trials_observed_unbounded Let_def)

text \<open>The four ways in which the Bayesian branch ends.\<close>

lemma bayesian_branch_conflict:
  assumes "truthy (max_parallelism_override a) \<and> truthy (max_parallelism_cap a)"
  shows "bayesian_branch reg a m = ([], Inl (ValueError parallelism_message))"
  using assms by (simp add: bayesian_branch_def)

lemma bayesian_branch_overflow:
  assumes "\<not> (truthy (max_parallelism_override a) \<and> truthy (max_parallelism_cap a))"
    and "ceil_half (initialization_trials a) = Inl e"
  shows "bayesian_branch reg a m = ([], Inl e)"
  using assms(1)
  by (auto simp add: bayesian_branch_def Let_def case_prod_beta
      sobol_step_overflow [OF assms(2)])

lemma bayesian_branch_inconsistent:
  assumes "\<not> (truthy (max_parallelism_override a) \<and> truthy (max_parallelism_cap a))"
    and "ceil_half (initialization_trials a) = Inr v"
    and "winsorize_botorch_model a \<noteq> (winsorization_limits a \<noteq> None)"
  shows "bayesian_branch reg a m =
           ([\<lparr> model = SOBOL, num_trials = initialization_trials a, min_trials_observed = v,
                enforce_num_trials = enforce_sequential_optimization a,
                max_parallelism = fst (parallelism a),
                model_kwargs =
                  Some [(''deduplicate'', BoolKwarg True), (''seed'', SeedKwarg (random_seed a))],
                should_deduplicate = should_deduplicate_arg a \<rparr>],
            Inl (ValueError winsorization_message))"
  using assms(1)
  by (auto simp add: bayesian_branch_def Let_def case_prod_beta
      sobol_step_built [OF assms(2)] botorch_step_inconsistent [OF assms(3)])

lemma bayesian_branch_consistent:
  assumes "\<not> (truthy (max_parallelism_override a) \<and> truthy (max_parallelism_cap a))"
    and "ceil_half (initialization_trials a) = Inr v"
    and "winsorize_botorch_model a = (winsorization_limits a \<noteq> None)"
  shows "\<exists>kw. bayesian_branch reg a m =
           (let sobol_step =
                  \<lparr> model = SOBOL, num_trials = initialization_trials a,
                    min_trials_observed = v,
                    enforce_num_trials = enforce_sequential_optimization a,
                    max_parallelism = fst (parallelism a),
                    model_kwargs =
                      Some [(''deduplicate'', BoolKwarg True),
                            (''seed'', SeedKwarg (random_seed a))],
                    should_deduplicate = should_deduplicate_arg a \<rparr>;
                botorch_step =
                  \<lparr> model = m, num_trials = - 1, min_trials_observed = 0,
                    enforce_num_trials = True, max_parallelism = snd (parallelism a),
                    model_kwargs = kw, should_deduplicate = should_deduplicate_arg a \<rparr>
            in ([sobol_step, botorch_step],
                Inr (attach_experiment a
                       \<lparr> steps = [sobol_step, botorch_step],
                         strategy_experiment = None \<rparr>)))"
proof -
  from botorch_step_consistent [OF assms(3)]
  obtain kw where step:
    "make_botorch_step reg (- 1) None True (snd (parallelism a)) m
       (winsorize_botorch_model a) (winsorization_limits a) (should_deduplicate_arg a) =
     Inr \<lparr> model = m, num_trials = - 1, min_trials_observed = 0,
           enforce_num_trials = True, max_parallelism = snd (parallelism a),
           model_kwargs = kw, should_deduplicate = should_deduplicate_arg a \<rparr>"
    by blast
  show ?thesis
    using assms(1)
    by (intro exI [of _ kw])
      (auto simp add: bayesian_branch_def Let_def case_prod_beta
        sobol_step_built [OF assms(2)] step)
qed

text \<open>What the Bayesian branch returns when it returns a strategy.\<close>

lemma bayesian_branch_returns:
  assumes "bayesian_branch reg a m = (built, Inr gs)"
  shows "\<exists>v kw. ceil_half (initialization_trials a) = Inr v \<and>
           steps gs =
             [\<lparr> model = SOBOL, num_trials = initialization_trials a,
                min_trials_observed = v,
                enforce_num_trials = enforce_sequential_optimization a,
                max_parallelism = fst (parallelism a),
                model_kwargs =
                  Some [(''deduplicate'', BoolKwarg True),
                        (''seed'', SeedKwarg (random_seed a))],
                should_deduplicate = should_deduplicate_arg a \<rparr>,
              \<lparr> model = m, num_trials = - 1, min_trials_observed = 0,
                enforce_num_trials = True, max_parallelism = snd (parallelism a),
                model_kwargs = kw, should_deduplicate = should_deduplicate_arg a \<rparr>]"
proof (cases "truthy (max_parallelism_override a) \<and> truthy (max_parallelism_cap a)")
  case True
  with assms show ?thesis by (simp add: bayesian_branch_conflict)
next
  case no_conflict: False
  show ?thesis
  proof (cases "ceil_half (initialization_trials a)")
    case (Inl e)
    with assms bayesian_branch_overflow [OF no_conflict Inl, of reg m]
    show ?thesis by simp
  next
    case (Inr v)
    show ?thesis
    proof (cases "winsorize_botorch_model a = (winsorization_limits a \<noteq> None)")
      case True
      from bayesian_branch_consistent [OF no_conflict Inr True, of reg m] assms
      show ?thesis by (auto simp add: Let_def attach_experiment_steps Inr)
    next
      case False
      with assms bayesian_branch_inconsistent [OF no_conflict Inr False, of reg m]
      show ?thesis by simp
    qed
  qed
qed

text \<open>How the Bayesian branch ends when it raises.\<close>

lemma bayesian_branch_raises:
  assumes "bayesian_branch reg a m = (built, Inl e)"
  shows "(e = ValueError parallelism_message \<and> built = []) \<or>
         (e = OverflowError \<and> built = []) \<or>
         (e = ValueError winsorization_message \<and>
          (\<exists>s. built = [s] \<and> model s = SOBOL \<and> num_trials s = initialization_trials a))"
proof (cases "truthy (max_parallelism_override a) \<and> truthy (max_parallelism_cap a)")
  case True
  with assms show ?thesis by (auto simp add: bayesian_branch_conflict)
next
  case no_conflict: False
  show ?thesis
  proof (cases "ceil_half (initialization_trials a)")
    case (Inl e')
    with assms bayesian_branch_overflow [OF no_conflict Inl, of reg m] ceil_half_error [OF Inl]
    show ?thesis by simp
  next
    case (Inr v)
    show ?thesis
    proof (cases "winsorize_botorch_model a = (winsorization_limits a \<noteq> None)")
      case True
      from bayesian_branch_consistent [OF no_conflict Inr True, of reg m] assms
      show ?thesis by (auto simp add: Let_def)
    next
      case False
      with assms bayesian_branch_inconsistent [OF no_conflict Inr False, of reg m]
      show ?thesis by auto
    qed
  qed
qed

text \<open>
  With a suggested model, an override and a cap that are both set and both different
  from zero make the call fail.
\<close>

lemma parallelism_conflict_raises:
  assumes "suggest_gp_model (search_space a) (num_trials_arg a) (optimization_config a)
             (use_saasbo a) = Some m"
    and "\<not> no_bayesian_optimization a"
    and "max_parallelism_override a = Some ov" and "ov \<noteq> 0"
    and "max_parallelism_cap a = Some cap" and "cap \<noteq> 0"
  shows "choose_generation_strategy reg a = Inl (ValueError parallelism_message)"
proof -
  have "truthy (max_parallelism_override a) \<and> truthy (max_parallelism_cap a)"
    using assms(3-6) by (simp add: truthy_def)
  then show ?thesis
    by (simp add: choose_generation_strategy_with_model [OF assms(1,2)]
        bayesian_branch_conflict)
qed

subsection \<open>Evaluation of the examples\<close>

lemmas step_defs = make_sobol_step_def make_botorch_step_def min_trials_observed_or_ceil_def
  ceil_half_exact ceil_half_rounds ceil_half_overflow

lemmas strategy_defs = choose_generation_strategy_def choose_generation_strategy_built_def
  bayesian_branch_def sobol_branch_def attach_experiment_def parallelism_def
  initialization_trials_def truthy_def DEFAULT_BAYESIAN_PARALLELISM_def Let_def

lemmas example_defs = default_args_def example_registry_def example_sobol_step_def
  example_gpei_step_def

lemma continuous_space_model:
  "suggest_gp_model continuous_space None None False = Some GPEI"
  by (simp add: suggest_gp_model_rules summary_defs continuous_space_def)

lemma continuous_space_size: "int (length (parameters continuous_space)) = 6"
  by (simp add: continuous_space_def)

lemma integer_space_model:
  "suggest_gp_model integer_space (Some 2000) None False = None"
  by (simp add: suggest_gp_model_rules summary_defs integer_space_def py_int_def)

subsection \<open>Errors\<close>

text \<open>
  Claim C1. The claim is that an override and a cap supplied together always make
  the call fail with a \<^verbatim>\<open>ValueError\<close>, also when one of the two is 0. The test in
  line 259 is on the truth value of the two arguments, so it does not fire when one of
  them is 0: with override 0 and cap 5 the call returns a strategy whose two steps have
  the parallelism limit 0, and with override 4 and cap 0 it returns one whose two steps
  have the limit 4.
\<close>

theorem zero_override_with_cap_is_accepted:
  "choose_generation_strategy example_registry
     ((default_args continuous_space)
        \<lparr> max_parallelism_cap := Some 5, max_parallelism_override := Some 0 \<rparr>) =
   Inr \<lparr> steps = [example_sobol_step 6 3 (Some 0), example_gpei_step (Some 0)],
         strategy_experiment = None \<rparr> \<and>
   choose_generation_strategy example_registry
     ((default_args continuous_space)
        \<lparr> max_parallelism_cap := Some 0, max_parallelism_override := Some 4 \<rparr>) =
   Inr \<lparr> steps = [example_sobol_step 6 3 (Some 4), example_gpei_step (Some 4)],
         strategy_experiment = None \<rparr>"
  by (simp add: strategy_defs step_defs example_defs continuous_space_model
      continuous_space_size)

text \<open>
  Claim C2, as amended. The claim is that the call fails with a configuration error
  for every input with an inconsistent winsorization request, whatever branch the
  heuristic takes. The check is part of \<^verbatim>\<open>_make_botorch_step\<close>, which is only called
  when a model was suggested and Bayesian optimization is not switched off. In that
  case the call raises. When the number \<open>n\<close> of initialization trials, given or
  estimated, is below \<open>2^1024\<close> in absolute value, so that the division in the Sobol
  step does not overflow, the exception is a \<^verbatim>\<open>ValueError\<close>, and it is the one about
  winsorization when the override or the cap is \<^verbatim>\<open>None\<close>.
\<close>

theorem winsorization_checked_with_model:
  assumes "suggest_gp_model (search_space a) (num_trials_arg a) (optimization_config a)
             (use_saasbo a) = Some m"
    and "\<not> no_bayesian_optimization a"
    and "winsorize_botorch_model a \<noteq> (winsorization_limits a \<noteq> None)"
    and "n = (case num_initialization_trials a of
                Some k \<Rightarrow> k
              | None \<Rightarrow>
                  if use_batch_trials a then 1
                  else max 5 (int (length (parameters (search_space a)))))"
  shows "(\<exists>e. choose_generation_strategy reg a = Inl e) \<and>
         (\<bar>n\<bar> < 2 ^ 1024 \<longrightarrow>
            (\<exists>msg. choose_generation_strategy reg a = Inl (ValueError msg)) \<and>
            (max_parallelism_override a = None \<or> max_parallelism_cap a = None \<longrightarrow>
               choose_generation_strategy reg a = Inl (ValueError winsorization_message)))"
proof -
  have n: "initialization_trials a = n"
    by (simp add: initialization_trials_def assms(4))
  note result = choose_generation_strategy_with_model [OF assms(1,2), of reg]
  show ?thesis
  proof (cases "truthy (max_parallelism_override a) \<and> truthy (max_parallelism_cap a)")
    case True
    then have "choose_generation_strategy reg a = Inl (ValueError parallelism_message)"
      by (simp add: result bayesian_branch_conflict)
    moreover from True have "max_parallelism_override a \<noteq> None"
      and "max_parallelism_cap a \<noteq> None"
      by (auto simp add: truthy_def split: option.splits)
    ultimately show ?thesis by auto
  next
    case no_conflict: False
    show ?thesis
    proof (cases "ceil_half (initialization_trials a)")
      case (Inl e)
      then have raised: "choose_generation_strategy reg a = Inl e"
        by (simp add: result bayesian_branch_overflow [OF no_conflict Inl])
      have "\<not> \<bar>n\<bar> < 2 ^ 1024"
      proof
        assume "\<bar>n\<bar> < 2 ^ 1024"
        from ceil_half_defined [OF this] Inl show False by (simp add: n)
      qed
      with raised show ?thesis by simp
    next
      case (Inr v)
      have "choose_generation_strategy reg a = Inl (ValueError winsorization_message)"
        by (simp add: result bayesian_branch_inconsistent [OF no_conflict Inr assms(3)])
      then show ?thesis by simp
    qed
  qed
qed

theorem winsorization_checked_with_model_witness:
  "choose_generation_strategy example_registry
     ((default_args continuous_space) \<lparr> winsorize_botorch_model := True \<rparr>) =
   Inl (ValueError winsorization_message) \<and>
   choose_generation_strategy example_registry
     ((default_args continuous_space)
        \<lparr> winsorization_limits := Some (Some (1 / 10), Some (9 / 10)) \<rparr>) =
   Inl (ValueError winsorization_message) \<and>
   choose_generation_strategy example_registry
     ((default_args continuous_space)
        \<lparr> winsorize_botorch_model := True, num_initialization_trials := Some 7,
          max_parallelism_cap := Some 2 \<rparr>) =
   Inl (ValueError winsorization_message)"
proof -
  let ?a = "(default_args continuous_space) \<lparr> winsorize_botorch_model := True \<rparr>"
  let ?b = "(default_args continuous_space)
              \<lparr> winsorization_limits := Some (Some (1 / 10), Some (9 / 10)) \<rparr>"
  let ?c = "(default_args continuous_space)
              \<lparr> winsorize_botorch_model := True, num_initialization_trials := Some 7,
                max_parallelism_cap := Some 2 \<rparr>"
  have a1: "suggest_gp_model (search_space ?a) (num_trials_arg ?a) (optimization_config ?a)
              (use_saasbo ?a) = Some GPEI"
    and b1: "suggest_gp_model (search_space ?b) (num_trials_arg ?b) (optimization_config ?b)
              (use_saasbo ?b) = Some GPEI"
    and c1: "suggest_gp_model (search_space ?c) (num_trials_arg ?c) (optimization_config ?c)
              (use_saasbo ?c) = Some GPEI"
    by (simp_all add: default_args_def continuous_space_model)
  have a2: "\<not> no_bayesian_optimization ?a" and b2: "\<not> no_bayesian_optimization ?b"
    and c2: "\<not> no_bayesian_optimization ?c"
    by (simp_all add: default_args_def)
  have a3: "winsorize_botorch_model ?a \<noteq> (winsorization_limits ?a \<noteq> None)"
    and b3: "winsorize_botorch_model ?b \<noteq> (winsorization_limits ?b \<noteq> None)"
    and c3: "winsorize_botorch_model ?c \<noteq> (winsorization_limits ?c \<noteq> None)"
    by (simp_all add: default_args_def)
  show ?thesis
    using winsorization_checked_with_model [OF a1 a2 a3 refl, of example_registry]
      winsorization_checked_with_model [OF b1 b2 b3 refl, of example_registry]
      winsorization_checked_with_model [OF c1 c2 c3 refl, of example_registry]
    by (simp add: default_args_def continuous_space_size)
qed

text \<open>
  The claim as stated fails where a single Sobol step is used: with Bayesian
  optimization switched off, a request to winsorize without limits returns a strategy,
  and so does a request with the limits \<open>(0.1, 0.9)\<close> and without winsorization on a
  search space that the known number of trials enumerates.
\<close>

theorem winsorization_unchecked_without_model:
  "choose_generation_strategy example_registry
     ((default_args continuous_space)
        \<lparr> winsorize_botorch_model := True, no_bayesian_optimization := True \<rparr>) =
   Inr \<lparr> steps = [example_sobol_step (- 1) 0 None], strategy_experiment = None \<rparr> \<and>
   choose_generation_strategy example_registry
     ((default_args integer_space)
        \<lparr> winsorization_limits := Some (Some (1 / 10), Some (9 / 10)),
          num_trials_arg := Some 2000 \<rparr>) =
   Inr \<lparr> steps = [example_sobol_step (- 1) 0 None], strategy_experiment = None \<rparr>"
  by (simp add: strategy_defs step_defs example_defs continuous_space_model
      integer_space_model)

text \<open>
  Claim C10. When \<^verbatim>\<open>_suggest_gp_model\<close> returns \<^verbatim>\<open>None\<close> or Bayesian optimization
  is switched off, \<^verbatim>\<open>choose_generation_strategy\<close> returns a strategy, namely the one
  with a single Sobol step, whatever the winsorization and parallelism arguments are.
\<close>

theorem sobol_branch_never_raises:
  assumes "suggest_gp_model (search_space a) (num_trials_arg a) (optimization_config a)
             (use_saasbo a) = None \<or> no_bayesian_optimization a"
  shows "\<exists>gs. choose_generation_strategy reg a = Inr gs \<and>
           steps gs =
             [\<lparr> model = SOBOL, num_trials = - 1, min_trials_observed = 0,
                enforce_num_trials = True, max_parallelism = None,
                model_kwargs =
                  Some [(''deduplicate'', BoolKwarg True),
                        (''seed'', SeedKwarg (random_seed a))],
                should_deduplicate = should_deduplicate_arg a \<rparr>]"
  by (simp add: choose_generation_strategy_without_model [OF assms] sobol_branch_result
      Let_def attach_experiment_steps)

theorem sobol_branch_never_raises_witness:
  "choose_generation_strategy example_registry
     ((default_args continuous_space)
        \<lparr> winsorize_botorch_model := True, no_bayesian_optimization := True,
          max_parallelism_cap := Some 2, max_parallelism_override := Some 4 \<rparr>) =
   Inr \<lparr> steps = [example_sobol_step (- 1) 0 None], strategy_experiment = None \<rparr> \<and>
   choose_generation_strategy example_registry
     ((default_args integer_space)
        \<lparr> winsorization_limits := Some (Some (1 / 10), Some (9 / 10)),
          num_trials_arg := Some 2000,
          max_parallelism_cap := Some 2, max_parallelism_override := Some 4 \<rparr>) =
   Inr \<lparr> steps = [example_sobol_step (- 1) 0 None], strategy_experiment = None \<rparr>"
proof -
  let ?a = "(default_args continuous_space)
              \<lparr> winsorize_botorch_model := True, no_bayesian_optimization := True,
                max_parallelism_cap := Some 2, max_parallelism_override := Some 4 \<rparr>"
  let ?b = "(default_args integer_space)
              \<lparr> winsorization_limits := Some (Some (1 / 10), Some (9 / 10)),
                num_trials_arg := Some 2000,
                max_parallelism_cap := Some 2, max_parallelism_override := Some 4 \<rparr>"
  have a1: "suggest_gp_model (search_space ?a) (num_trials_arg ?a) (optimization_config ?a)
              (use_saasbo ?a) = None \<or> no_bayesian_optimization ?a"
    by (simp add: default_args_def)
  have b1: "suggest_gp_model (search_space ?b) (num_trials_arg ?b) (optimization_config ?b)
              (use_saasbo ?b) = None \<or> no_bayesian_optimization ?b"
    by (simp add: default_args_def integer_space_model)
  from sobol_branch_never_raises [OF a1, of example_registry]
  obtain gs where a2: "choose_generation_strategy example_registry ?a = Inr gs"
    by blast
  from sobol_branch_never_raises [OF b1, of example_registry]
  obtain gs' where b2: "choose_generation_strategy example_registry ?b = Inr gs'"
    by blast
  have a4: "choose_generation_strategy example_registry ?a =
              Inr \<lparr> steps = [example_sobol_step (- 1) 0 None], strategy_experiment = None \<rparr>"
    by (simp add: strategy_defs step_defs example_defs continuous_space_model)
  have b4: "choose_generation_strategy example_registry ?b =
              Inr \<lparr> steps = [example_sobol_step (- 1) 0 None], strategy_experiment = None \<rparr>"
    by (simp add: strategy_defs step_defs example_defs integer_space_model)
  show ?thesis
    using a2 a4 b2 b4 by simp
qed

text \<open>
  Claim C7, as amended. The claim is that both configuration errors are detected
  before any generation step is built. That holds for the error about parallelism: no
  step has been constructed when it is raised. The error about winsorization is raised
  by \<^verbatim>\<open>_make_botorch_step\<close>, which is called after \<^verbatim>\<open>_make_sobol_step\<close> has
  returned: exactly one step, the Sobol step with the number \<open>n\<close> of initialization
  trials as its budget, has been constructed when it is raised. The only other
  exception is the \<^verbatim>\<open>OverflowError\<close> of the division in \<^verbatim>\<open>_make_sobol_step\<close>, raised
  before any step is constructed. In every case the caller receives the exception and
  no strategy.
\<close>

theorem errors_and_built_steps:
  assumes "choose_generation_strategy_built reg a = (built, Inl e)"
    and "n = (case num_initialization_trials a of
                Some k \<Rightarrow> k
              | None \<Rightarrow>
                  if use_batch_trials a then 1
                  else max 5 (int (length (parameters (search_space a)))))"
  shows "choose_generation_strategy reg a = Inl e \<and>
         ((e = ValueError parallelism_message \<and> built = []) \<or>
          (e = OverflowError \<and> built = []) \<or>
          (e = ValueError winsorization_message \<and>
           (\<exists>s. built = [s] \<and> model s = SOBOL \<and> num_trials s = n)))"
proof -
  have n: "initialization_trials a = n"
    by (simp add: initialization_trials_def assms(2))
  have result: "choose_generation_strategy reg a = Inl e"
    by (simp add: choose_generation_strategy_def assms(1))
  show ?thesis
  proof (cases "suggest_gp_model (search_space a) (num_trials_arg a) (optimization_config a)
                  (use_saasbo a) = None \<or> no_bayesian_optimization a")
    case True
    from assms(1) built_without_model [OF True, of reg]
    show ?thesis by (simp add: sobol_branch_result Let_def)
  next
    case False
    then obtain m where
      "suggest_gp_model (search_space a) (num_trials_arg a) (optimization_config a)
         (use_saasbo a) = Some m"
      and "\<not> no_bayesian_optimization a"
      by auto
    from built_with_model [OF this, of reg] assms(1)
    have "bayesian_branch reg a m = (built, Inl e)" by simp
    from bayesian_branch_raises [OF this] result
    show ?thesis by (simp add: n)
  qed
qed

theorem errors_and_built_steps_witness:
  "choose_generation_strategy_built example_registry
     ((default_args continuous_space)
        \<lparr> max_parallelism_cap := Some 2, max_parallelism_override := Some 4 \<rparr>) =
   ([], Inl (ValueError parallelism_message)) \<and>
   choose_generation_strategy example_registry
     ((default_args continuous_space)
        \<lparr> max_parallelism_cap := Some 2, max_parallelism_override := Some 4 \<rparr>) =
   Inl (ValueError parallelism_message) \<and>
   choose_generation_strategy_built example_registry
     ((default_args continuous_space)
        \<lparr> winsorization_limits := Some (Some (1 / 10), Some (9 / 10)) \<rparr>) =
   ([example_sobol_step 6 3 None], Inl (ValueError winsorization_message)) \<and>
   choose_generation_strategy example_registry
     ((default_args continuous_space)
        \<lparr> winsorization_limits := Some (Some (1 / 10), Some (9 / 10)) \<rparr>) =
   Inl (ValueError winsorization_message) \<and>
   choose_generation_strategy_built example_registry
     ((default_args continuous_space)
        \<lparr> winsorize_botorch_model := True,
          num_initialization_trials := Some (10 ^ 400) \<rparr>) =
   ([], Inl OverflowError) \<and>
   choose_generation_strategy example_registry
     ((default_args continuous_space)
        \<lparr> winsorize_botorch_model := True,
          num_initialization_trials := Some (10 ^ 400) \<rparr>) =
   Inl OverflowError"
proof -
  let ?a = "(default_args continuous_space)
              \<lparr> max_parallelism_cap := Some 2, max_parallelism_override := Some 4 \<rparr>"
  let ?b = "(default_args continuous_space)
              \<lparr> winsorization_limits := Some (Some (1 / 10), Some (9 / 10)) \<rparr>"
  let ?c = "(default_args continuous_space)
              \<lparr> winsorize_botorch_model := True,
                num_initialization_trials := Some (10 ^ 400) \<rparr>"
  have a: "choose_generation_strategy_built example_registry ?a =
             ([], Inl (ValueError parallelism_message))"
    by (simp add: strategy_defs default_args_def continuous_space_model)
  have b: "choose_generation_strategy_built example_registry ?b =
             ([example_sobol_step 6 3 None], Inl (ValueError winsorization_message))"
    by (simp add: strategy_defs step_defs example_defs continuous_space_model
        continuous_space_size)
  have c: "choose_generation_strategy_built example_registry ?c =
             ([], Inl OverflowError)"
    by (simp add: strategy_defs step_defs example_defs continuous_space_model)
  show ?thesis
    using a b c errors_and_built_steps [OF a refl] errors_and_built_steps [OF b refl]
      errors_and_built_steps [OF c refl]
    by simp
qed

text \<open>
  The claim as stated fails for the winsorization error: a request to winsorize
  without limits, on a space for which \<open>GPEI\<close> is suggested, raises the error after
  the Sobol step with a budget of 6 trials has been built.
\<close>

theorem winsorization_error_after_sobol_step:
  "choose_generation_strategy_built example_registry
     ((default_args continuous_space) \<lparr> winsorize_botorch_model := True \<rparr>) =
   ([example_sobol_step 6 3 None], Inl (ValueError winsorization_message))"
  by (simp add: strategy_defs step_defs example_defs continuous_space_model
      continuous_space_size)

subsection \<open>The steps of the strategy\<close>

text \<open>
  Claim C5. When a model is suggested, Bayesian optimization is not switched off and
  a strategy is returned, the parallelism limits of its Sobol step and of its model
  step are, in this order: none and none for an override of \<open>-1\<close>; the override twice
  for any other override; the cap and the minimum of the cap and 3 when only a cap is
  given; none and none when neither is given and sequential optimization is not
  enforced; none and 3 when neither is given and sequential optimization is enforced.
\<close>

theorem parallelism_limits_resolved:
  assumes "suggest_gp_model (search_space a) (num_trials_arg a) (optimization_config a)
             (use_saasbo a) = Some m"
    and "\<not> no_bayesian_optimization a"
    and "choose_generation_strategy reg a = Inr gs"
  shows "map max_parallelism (steps gs) =
           (case max_parallelism_override a of
              Some override \<Rightarrow>
                if override = - 1 then [None, None] else [Some override, Some override]
            | None \<Rightarrow>
                (case max_parallelism_cap a of
                   Some cap \<Rightarrow> [Some cap, Some (min cap 3)]
                 | None \<Rightarrow>
                     if enforce_sequential_optimization a then [None, Some 3]
                     else [None, None]))"
proof -
  from assms(3) have "bayesian_branch reg a m = (fst (bayesian_branch reg a m), Inr gs)"
    by (simp add: choose_generation_strategy_with_model [OF assms(1,2)] prod_eq_iff)
  from bayesian_branch_returns [OF this]
  have "map max_parallelism (steps gs) = [fst (parallelism a), snd (parallelism a)]"
    by auto
  then show ?thesis
    by (simp add: parallelism_def DEFAULT_BAYESIAN_PARALLELISM_def
        split: option.splits)
qed

theorem parallelism_limits_resolved_witness:
  "choose_generation_strategy example_registry
     ((default_args continuous_space) \<lparr> max_parallelism_override := Some (- 1) \<rparr>) =
     Inr \<lparr> steps = [example_sobol_step 6 3 None, example_gpei_step None], strategy_experiment = None \<rparr> \<and>
   map max_parallelism
     (steps \<lparr> steps = [example_sobol_step 6 3 None, example_gpei_step None], strategy_experiment = None \<rparr>) =
     [None, None] \<and>
   choose_generation_strategy example_registry
     ((default_args continuous_space) \<lparr> max_parallelism_override := Some 7 \<rparr>) =
     Inr \<lparr> steps = [example_sobol_step 6 3 (Some 7), example_gpei_step (Some 7)], strategy_experiment = None \<rparr> \<and>
   map max_parallelism
     (steps \<lparr> steps = [example_sobol_step 6 3 (Some 7), example_gpei_step (Some 7)], strategy_experiment = None \<rparr>) =
     [Some 7, Some 7] \<and>
   choose_generation_strategy example_registry
     ((default_args continuous_space) \<lparr> max_parallelism_cap := Some 10 \<rparr>) =
     Inr \<lparr> steps = [example_sobol_step 6 3 (Some 10), example_gpei_step (Some 3)], strategy_experiment = None \<rparr> \<and>
   map max_parallelism
     (steps \<lparr> steps = [example_sobol_step 6 3 (Some 10), example_gpei_step (Some 3)], strategy_experiment = None \<rparr>) =
     [Some 10, Some 3] \<and>
   choose_generation_strategy example_registry
     ((default_args continuous_space) \<lparr> max_parallelism_cap := Some 2 \<rparr>) =
     Inr \<lparr> steps = [example_sobol_step 6 3 (Some 2), example_gpei_step (Some 2)], strategy_experiment = None \<rparr> \<and>
   map max_parallelism
     (steps \<lparr> steps = [example_sobol_step 6 3 (Some 2), example_gpei_step (Some 2)], strategy_experiment = None \<rparr>) =
     [Some 2, Some 2] \<and>
   choose_generation_strategy example_registry
     ((default_args continuous_space) \<lparr> enforce_sequential_optimization := False \<rparr>) =
     Inr \<lparr> steps = [(example_sobol_step 6 3 None) \<lparr> enforce_num_trials := False \<rparr>, example_gpei_step None], strategy_experiment = None \<rparr> \<and>
   map max_parallelism
     (steps \<lparr> steps = [(example_sobol_step 6 3 None) \<lparr> enforce_num_trials := False \<rparr>, example_gpei_step None], strategy_experiment = None \<rparr>) =
     [None, None] \<and>
   choose_generation_strategy example_registry
     ((default_args continuous_space)) =
     Inr \<lparr> steps = [example_sobol_step 6 3 None, example_gpei_step (Some 3)], strategy_experiment = None \<rparr> \<and>
   map max_parallelism
     (steps \<lparr> steps = [example_sobol_step 6 3 None, example_gpei_step (Some 3)], strategy_experiment = None \<rparr>) =
     [None, Some 3]"
proof -
  let ?a = "(default_args continuous_space) \<lparr> max_parallelism_override := Some (- 1) \<rparr>"
  let ?ga = "\<lparr> steps = [example_sobol_step 6 3 None, example_gpei_step None], strategy_experiment = None \<rparr>"
  let ?b = "(default_args continuous_space) \<lparr> max_parallelism_override := Some 7 \<rparr>"
  let ?gb = "\<lparr> steps = [example_sobol_step 6 3 (Some 7), example_gpei_step (Some 7)], strategy_experiment = None \<rparr>"
  let ?c = "(default_args continuous_space) \<lparr> max_parallelism_cap := Some 10 \<rparr>"
  let ?gc = "\<lparr> steps = [example_sobol_step 6 3 (Some 10), example_gpei_step (Some 3)], strategy_experiment = None \<rparr>"
  let ?d = "(default_args continuous_space) \<lparr> max_parallelism_cap := Some 2 \<rparr>"
  let ?gd = "\<lparr> steps = [example_sobol_step 6 3 (Some 2), example_gpei_step (Some 2)], strategy_experiment = None \<rparr>"
  let ?e = "(default_args continuous_space) \<lparr> enforce_sequential_optimization := False \<rparr>"
  let ?ge = "\<lparr> steps = [(example_sobol_step 6 3 None) \<lparr> enforce_num_trials := False \<rparr>, example_gpei_step None], strategy_experiment = None \<rparr>"
  let ?f = "(default_args continuous_space)"
  let ?gf = "\<lparr> steps = [example_sobol_step 6 3 None, example_gpei_step (Some 3)], strategy_experiment = None \<rparr>"
  have ma: "suggest_gp_model (search_space ?a) (num_trials_arg ?a)
              (optimization_config ?a) (use_saasbo ?a) = Some GPEI"
    and na: "\<not> no_bayesian_optimization ?a"
    by (simp_all add: default_args_def continuous_space_model)
  have ra: "choose_generation_strategy example_registry ?a = Inr ?ga"
    by (simp add: strategy_defs step_defs example_defs continuous_space_model
        continuous_space_size)
  have mb: "suggest_gp_model (search_space ?b) (num_trials_arg ?b)
              (optimization_config ?b) (use_saasbo ?b) = Some GPEI"
    and nb: "\<not> no_bayesian_optimization ?b"
    by (simp_all add: default_args_def continuous_space_model)
  have rb: "choose_generation_strategy example_registry ?b = Inr ?gb"
    by (simp add: strategy_defs step_defs example_defs continuous_space_model
        continuous_space_size)
  have mc: "suggest_gp_model (search_space ?c) (num_trials_arg ?c)
              (optimization_config ?c) (use_saasbo ?c) = Some GPEI"
    and nc: "\<not> no_bayesian_optimization ?c"
    by (simp_all add: default_args_def continuous_space_model)
  have rc: "choose_generation_strategy example_registry ?c = Inr ?gc"
    by (simp add: strategy_defs step_defs example_defs continuous_space_model
        continuous_space_size)
  have md: "suggest_gp_model (search_space ?d) (num_trials_arg ?d)
              (optimization_config ?d) (use_saasbo ?d) = Some GPEI"
    and nd: "\<not> no_bayesian_optimization ?d"
    by (simp_all add: default_args_def continuous_space_model)
  have rd: "choose_generation_strategy example_registry ?d = Inr ?gd"
    by (simp add: strategy_defs step_defs example_defs continuous_space_model
        continuous_space_size)
  have me: "suggest_gp_model (search_space ?e) (num_trials_arg ?e)
              (optimization_config ?e) (use_saasbo ?e) = Some GPEI"
    and ne: "\<not> no_bayesian_optimization ?e"
    by (simp_all add: default_args_def continuous_space_model)
  have re: "choose_generation_strategy example_registry ?e = Inr ?ge"
    by (simp add: strategy_defs step_defs example_defs continuous_space_model
        continuous_space_size)
  have mf: "suggest_gp_model (search_space ?f) (num_trials_arg ?f)
              (optimization_config ?f) (use_saasbo ?f) = Some GPEI"
    and nf: "\<not> no_bayesian_optimization ?f"
    by (simp_all add: default_args_def continuous_space_model)
  have rf: "choose_generation_strategy example_registry ?f = Inr ?gf"
    by (simp add: strategy_defs step_defs example_defs continuous_space_model
        continuous_space_size)
  show ?thesis
    using ra rb rc rd re rf
      parallelism_limits_resolved [OF ma na ra]
      parallelism_limits_resolved [OF mb nb rb]
      parallelism_limits_resolved [OF mc nc rc]
      parallelism_limits_resolved [OF md nd rd]
      parallelism_limits_resolved [OF me ne re]
      parallelism_limits_resolved [OF mf nf rf]
    by (simp add: default_args_def)
qed

text \<open>
  Claim C8. The Sobol step of the two-step strategy has as its minimum number of
  observed trials the value of \<^verbatim>\<open>ceil(n / 2)\<close> for the number \<open>n\<close> of initialization
  trials, given or estimated. Up to \<open>2^53\<close> in absolute value, where the division is
  exact, that is the ceiling of half of \<open>n\<close>: 0 for \<open>-1\<close> initialization trials and 4
  for 7.
\<close>

theorem sobol_min_trials_observed:
  assumes "suggest_gp_model (search_space a) (num_trials_arg a) (optimization_config a)
             (use_saasbo a) = Some m"
    and "\<not> no_bayesian_optimization a"
    and "choose_generation_strategy reg a = Inr gs"
    and "n = (case num_initialization_trials a of
                Some k \<Rightarrow> k
              | None \<Rightarrow>
                  if use_batch_trials a then 1
                  else max 5 (int (length (parameters (search_space a)))))"
  shows "\<exists>first second.
           steps gs = [first, second] \<and>
           ceil_half n = Inr (min_trials_observed first) \<and>
           (\<bar>n\<bar> \<le> 2 ^ 53 \<longrightarrow> min_trials_observed first = \<lceil>real_of_int n / 2\<rceil>) \<and>
           (n = - 1 \<longrightarrow> min_trials_observed first = 0) \<and>
           (n = 7 \<longrightarrow> min_trials_observed first = 4)"
proof -
  have n: "initialization_trials a = n"
    by (simp add: initialization_trials_def assms(4))
  from assms(3) have "bayesian_branch reg a m = (fst (bayesian_branch reg a m), Inr gs)"
    by (simp add: choose_generation_strategy_with_model [OF assms(1,2)] prod_eq_iff)
  from bayesian_branch_returns [OF this]
  have "\<exists>first second. steps gs = [first, second] \<and>
          ceil_half n = Inr (min_trials_observed first)"
    by (auto simp add: n)
  then obtain first second where two: "steps gs = [first, second]"
    and observed: "ceil_half n = Inr (min_trials_observed first)"
    by blast
  have exact: "min_trials_observed first = \<lceil>real_of_int n / 2\<rceil>" if "\<bar>n\<bar> \<le> 2 ^ 53"
    using observed ceil_half_exact_ceiling [OF that] by simp
  have exact_div: "min_trials_observed first = - ((- n) div 2)" if "\<bar>n\<bar> \<le> 2 ^ 53"
    using observed ceil_half_exact [OF that] by simp
  have "min_trials_observed first = 0" if "n = - 1"
    using exact_div that by simp
  moreover have "min_trials_observed first = 4" if "n = 7"
    using exact_div that by simp
  ultimately show ?thesis
    using two observed exact by simp
qed

theorem sobol_min_trials_observed_witness:
  "choose_generation_strategy example_registry
     ((default_args continuous_space) \<lparr> num_initialization_trials := Some (- 1) \<rparr>) =
     Inr \<lparr> steps = [example_sobol_step (- 1) 0 None, example_gpei_step (Some 3)],
           strategy_experiment = None \<rparr> \<and>
   min_trials_observed (example_sobol_step (- 1) 0 None) = 0 \<and>
   choose_generation_strategy example_registry
     ((default_args continuous_space) \<lparr> num_initialization_trials := Some 7 \<rparr>) =
     Inr \<lparr> steps = [example_sobol_step 7 4 None, example_gpei_step (Some 3)],
           strategy_experiment = None \<rparr> \<and>
   min_trials_observed (example_sobol_step 7 4 None) = 4 \<and>
   choose_generation_strategy example_registry
     ((default_args continuous_space)
        \<lparr> num_initialization_trials := Some 9007199254740993 \<rparr>) =
     Inr \<lparr> steps = [example_sobol_step 9007199254740993 4503599627370496 None,
                    example_gpei_step (Some 3)],
           strategy_experiment = None \<rparr> \<and>
   ceil_half 9007199254740993 = Inr 4503599627370496 \<and>
   choose_generation_strategy example_registry
     ((default_args continuous_space)
        \<lparr> num_initialization_trials := Some 9007199254740995 \<rparr>) =
     Inr \<lparr> steps = [example_sobol_step 9007199254740995 4503599627370498 None,
                    example_gpei_step (Some 3)],
           strategy_experiment = None \<rparr> \<and>
   ceil_half 9007199254740995 = Inr 4503599627370498"
proof -
  let ?a = "(default_args continuous_space) \<lparr> num_initialization_trials := Some (- 1) \<rparr>"
  let ?b = "(default_args continuous_space) \<lparr> num_initialization_trials := Some 7 \<rparr>"
  let ?c = "(default_args continuous_space)
              \<lparr> num_initialization_trials := Some 9007199254740993 \<rparr>"
  let ?d = "(default_args continuous_space)
              \<lparr> num_initialization_trials := Some 9007199254740995 \<rparr>"
  let ?ga = "\<lparr> steps = [example_sobol_step (- 1) 0 None, example_gpei_step (Some 3)],
               strategy_experiment = None \<rparr>"
  let ?gb = "\<lparr> steps = [example_sobol_step 7 4 None, example_gpei_step (Some 3)],
               strategy_experiment = None \<rparr>"
  let ?gc = "\<lparr> steps = [example_sobol_step 9007199254740993 4503599627370496 None,
                        example_gpei_step (Some 3)],
               strategy_experiment = None \<rparr>"
  let ?gd = "\<lparr> steps = [example_sobol_step 9007199254740995 4503599627370498 None,
                        example_gpei_step (Some 3)],
               strategy_experiment = None \<rparr>"
  have ma: "suggest_gp_model (search_space ?a) (num_trials_arg ?a)
              (optimization_config ?a) (use_saasbo ?a) = Some GPEI"
    and na: "\<not> no_bayesian_optimization ?a"
    and mb: "suggest_gp_model (search_space ?b) (num_trials_arg ?b)
              (optimization_config ?b) (use_saasbo ?b) = Some GPEI"
    and nb: "\<not> no_bayesian_optimization ?b"
    and mc: "suggest_gp_model (search_space ?c) (num_trials_arg ?c)
              (optimization_config ?c) (use_saasbo ?c) = Some GPEI"
    and nc: "\<not> no_bayesian_optimization ?c"
    and md: "suggest_gp_model (search_space ?d) (num_trials_arg ?d)
              (optimization_config ?d) (use_saasbo ?d) = Some GPEI"
    and nd: "\<not> no_bayesian_optimization ?d"
    by (simp_all add: default_args_def continuous_space_model)
  have ra: "choose_generation_strategy example_registry ?a = Inr ?ga"
    by (simp add: strategy_defs step_defs example_defs continuous_space_model)
  have rb: "choose_generation_strategy example_registry ?b = Inr ?gb"
    by (simp add: strategy_defs step_defs example_defs continuous_space_model)
  have rc: "choose_generation_strategy example_registry ?c = Inr ?gc"
    by (simp add: strategy_defs step_defs example_defs continuous_space_model)
  have rd: "choose_generation_strategy example_registry ?d = Inr ?gd"
    by (simp add: strategy_defs step_defs example_defs continuous_space_model)
  show ?thesis
    using ra rb rc rd
      sobol_min_trials_observed [OF ma na ra refl]
      sobol_min_trials_observed [OF mb nb rb refl]
      sobol_min_trials_observed [OF mc nc rc refl]
      sobol_min_trials_observed [OF md nd rd refl]
    by (simp add: default_args_def example_sobol_step_def)
qed

text \<open>
  Claim C9. A returned strategy has exactly two steps if and only if a model was
  suggested and Bayesian optimization is not switched off; then the first step is a
  Sobol step whose budget is the number of initialization trials (the given one, or 1
  for batch trials, or else the larger of 5 and the number of parameters) and the
  second runs the suggested model with the budget \<open>-1\<close>. In every other case it has
  exactly one step: a Sobol step with the budget \<open>-1\<close>, with the budget enforced and
  without a parallelism limit.
\<close>

theorem strategy_phases:
  assumes "choose_generation_strategy reg a = Inr gs"
  shows "(length (steps gs) = 2) =
           (suggest_gp_model (search_space a) (num_trials_arg a) (optimization_config a)
              (use_saasbo a) \<noteq> None \<and> \<not> no_bayesian_optimization a) \<and>
         (if suggest_gp_model (search_space a) (num_trials_arg a) (optimization_config a)
               (use_saasbo a) \<noteq> None \<and> \<not> no_bayesian_optimization a
          then \<exists>first second.
                 steps gs = [first, second] \<and>
                 model first = SOBOL \<and>
                 num_trials first =
                   (case num_initialization_trials a of
                      Some k \<Rightarrow> k
                    | None \<Rightarrow>
                        if use_batch_trials a then 1
                        else max 5 (int (length (parameters (search_space a))))) \<and>
                 Some (model second) =
                   suggest_gp_model (search_space a) (num_trials_arg a)
                     (optimization_config a) (use_saasbo a) \<and>
                 num_trials second = - 1
          else \<exists>only.
                 steps gs = [only] \<and>
                 model only = SOBOL \<and> num_trials only = - 1 \<and>
                 enforce_num_trials only \<and> max_parallelism only = None)"
proof (cases "suggest_gp_model (search_space a) (num_trials_arg a) (optimization_config a)
                (use_saasbo a) = None \<or> no_bayesian_optimization a")
  case True
  from assms have "steps gs =
      [\<lparr> model = SOBOL, num_trials = - 1, min_trials_observed = 0,
         enforce_num_trials = True, max_parallelism = None,
         model_kwargs =
           Some [(''deduplicate'', BoolKwarg True), (''seed'', SeedKwarg (random_seed a))],
         should_deduplicate = should_deduplicate_arg a \<rparr>]"
    by (auto simp add: choose_generation_strategy_without_model [OF True]
        sobol_branch_result Let_def attach_experiment_steps)
  with True show ?thesis by auto
next
  case False
  then obtain m where
    m: "suggest_gp_model (search_space a) (num_trials_arg a) (optimization_config a)
          (use_saasbo a) = Some m"
    and n: "\<not> no_bayesian_optimization a"
    by auto
  from assms have "bayesian_branch reg a m = (fst (bayesian_branch reg a m), Inr gs)"
    by (simp add: choose_generation_strategy_with_model [OF m n] prod_eq_iff)
  from bayesian_branch_returns [OF this] m n show ?thesis
    by (auto simp add: initialization_trials_def)
qed

theorem strategy_phases_witness:
  "choose_generation_strategy example_registry (default_args continuous_space) =
     Inr \<lparr> steps = [example_sobol_step 6 3 None, example_gpei_step (Some 3)],
           strategy_experiment = None \<rparr> \<and>
   choose_generation_strategy example_registry
     ((default_args continuous_space) \<lparr> num_initialization_trials := Some 7 \<rparr>) =
     Inr \<lparr> steps = [example_sobol_step 7 4 None, example_gpei_step (Some 3)],
           strategy_experiment = None \<rparr> \<and>
   choose_generation_strategy example_registry
     ((default_args continuous_space) \<lparr> use_batch_trials := True \<rparr>) =
     Inr \<lparr> steps = [example_sobol_step 1 1 None, example_gpei_step (Some 3)],
           strategy_experiment = None \<rparr> \<and>
   suggest_gp_model continuous_space None None False = Some GPEI \<and>
   choose_generation_strategy example_registry
     ((default_args integer_space) \<lparr> num_trials_arg := Some 2000 \<rparr>) =
     Inr \<lparr> steps = [example_sobol_step (- 1) 0 None], strategy_experiment = None \<rparr> \<and>
   suggest_gp_model integer_space (Some 2000) None False = None \<and>
   choose_generation_strategy example_registry
     ((default_args continuous_space)
        \<lparr> no_bayesian_optimization := True, num_initialization_trials := Some 7 \<rparr>) =
     Inr \<lparr> steps = [example_sobol_step (- 1) 0 None], strategy_experiment = None \<rparr>"
proof -
  let ?a = "default_args continuous_space"
  let ?b = "(default_args integer_space) \<lparr> num_trials_arg := Some 2000 \<rparr>"
  let ?c = "(default_args continuous_space)
              \<lparr> no_bayesian_optimization := True, num_initialization_trials := Some 7 \<rparr>"
  let ?d = "(default_args continuous_space) \<lparr> num_initialization_trials := Some 7 \<rparr>"
  let ?e = "(default_args continuous_space) \<lparr> use_batch_trials := True \<rparr>"
  have ra: "choose_generation_strategy example_registry ?a =
              Inr \<lparr> steps = [example_sobol_step 6 3 None, example_gpei_step (Some 3)],
                    strategy_experiment = None \<rparr>"
    by (simp add: strategy_defs step_defs example_defs continuous_space_model
        continuous_space_size)
  have rb: "choose_generation_strategy example_registry ?b =
              Inr \<lparr> steps = [example_sobol_step (- 1) 0 None], strategy_experiment = None \<rparr>"
    by (simp add: strategy_defs step_defs example_defs integer_space_model)
  have rc: "choose_generation_strategy example_registry ?c =
              Inr \<lparr> steps = [example_sobol_step (- 1) 0 None], strategy_experiment = None \<rparr>"
    by (simp add: strategy_defs step_defs example_defs continuous_space_model)
  have rd: "choose_generation_strategy example_registry ?d =
              Inr \<lparr> steps = [example_sobol_step 7 4 None, example_gpei_step (Some 3)],
                    strategy_experiment = None \<rparr>"
    by (simp add: strategy_defs step_defs example_defs continuous_space_model)
  have re: "choose_generation_strategy example_registry ?e =
              Inr \<lparr> steps = [example_sobol_step 1 1 None, example_gpei_step (Some 3)],
                    strategy_experiment = None \<rparr>"
    by (simp add: strategy_defs step_defs example_defs continuous_space_model)
  show ?thesis
    using ra rb rc rd re strategy_phases [OF ra] strategy_phases [OF rb]
      strategy_phases [OF rc] strategy_phases [OF rd] strategy_phases [OF re]
      continuous_space_model integer_space_model
    by simp
qed

end
